theory Spec2Isabelle
  imports Main "HOL-Library.Word"
begin

unbundle bit_operations_syntax

section \<open>LDC1101 data acquisition: a model of main.c\<close>

text \<open>
  The program drives a TI LDC1101 over SPI: it writes a fixed sequence of
  configuration registers, checks the chip identity, starts conversions and then,
  for every sample, spins on the LHR status register and reads the measurement.
  The theory follows main.c function by function.  Bytes are \<open>uint8_t\<close>, the
  integer expressions of C are evaluated on 32-bit \<open>int\<close>, as C's integer
  promotion does, and cast back where the source assigns to a \<open>uint8_t\<close>.
\<close>

type_synonym u8 = "8 word"
type_synonym u32 = "32 word"

subsection \<open>Register addresses and constants (ldc1101.h, main.c)\<close>

definition LDC1101_RP_SET :: u8 where "LDC1101_RP_SET = 0x01"
definition LDC1101_ALT_CONFIG :: u8 where "LDC1101_ALT_CONFIG = 0x05"
definition LDC1101_START_CONFIG :: u8 where "LDC1101_START_CONFIG = 0x0B"
definition LDC1101_D_CONF :: u8 where "LDC1101_D_CONF = 0x0C"
definition LDC1101_LHR_RCOUNT_LSB :: u8 where "LDC1101_LHR_RCOUNT_LSB = 0x30"
definition LDC1101_LHR_RCOUNT_MSB :: u8 where "LDC1101_LHR_RCOUNT_MSB = 0x31"
definition LDC1101_LHR_DATA_LSB :: u8 where "LDC1101_LHR_DATA_LSB = 0x38"
definition LDC1101_LHR_STATUS :: u8 where "LDC1101_LHR_STATUS = 0x3B"
definition LDC1101_CHIP_ID :: u8 where "LDC1101_CHIP_ID = 0x3F"

text \<open>\<open>#define LDC1101_LHR_DRDY 1<<0\<close>, an \<open>int\<close>.\<close>

definition LDC1101_LHR_DRDY :: u32 where "LDC1101_LHR_DRDY = push_bit 0 1"

definition LOPTIMAL :: u8 where "LOPTIMAL = 0x01"
definition DOK_REPORT :: u8 where "DOK_REPORT = 0x01"
definition SPI_DEV_ID :: u8 where "SPI_DEV_ID = 0xD4"

subsection \<open>The world outside the program\<close>

text \<open>
  Modelled from the spec: the SPI transport \<open>wiringPiSPIxDataRW\<close> and
  \<open>wiringPiSPIxSetupMode\<close> belong to the wiringPi library, the log file and
  syslog to the operating system; none of them is code of this repository.  The
  spec (section 6) gives the transport as a full-duplex exchange
  \<open>transfer(buffer, length) -> (ok, buffer_with_response) | io_error\<close> in which
  the response overwrites the request bytes in the same storage.

  The device is a script of replies, one per transfer.  A reply is a transport
  failure (the call returns -1 and stores nothing) or the bytes the device clocks
  back.  Every frame handed to the transport is recorded in \<open>sent\<close>.
\<close>

datatype reply = Fail | Resp "u8 list"

datatype log_entry =
    Info_spi_fd int
  | Err_spi_init
  | Info_spi_initialized
  | Err_write_reg u8
  | Err_read_reg u8
  | Err_read_id
  | Err_unexpected_id u8
  | Info_id_verified u8
  | Err_read_value
  | Err_write_log

record env =
  sent :: "u8 option list list"
  script :: "reply list"
  setup_fd :: int
  syslog :: "log_entry list"
  rows :: "u32 list"
  write_ok :: "nat \<Rightarrow> bool"

text \<open>
  \<open>sent\<close>: the frames clocked out so far, oldest first; a byte is \<open>None\<close> when
  the transfer took it from beyond the end of the caller's array.
  \<open>setup_fd\<close>: what \<open>wiringPiSPIxSetupMode\<close> returns.
  \<open>rows\<close>: the sample values appended to the CSV file.
  \<open>write_ok k\<close>: whether the \<open>write\<close> of the row after \<open>k\<close> rows succeeds.
\<close>

text \<open>Reading a C array of known size at an index: \<open>None\<close> beyond its end.\<close>

definition buf_at :: "u8 list \<Rightarrow> nat \<Rightarrow> u8 option" where
  "buf_at buf i = (if i < length buf then Some (buf ! i) else None)"

text \<open>The \<open>len\<close> bytes the transfer clocks out, starting at the array's first byte.\<close>

definition frame_of :: "u8 list \<Rightarrow> nat \<Rightarrow> u8 option list" where
  "frame_of buf len = map (buf_at buf) [0..<len]"

text \<open>
  The response is stored over the same bytes.  A byte stored beyond the end of
  the array lands in whatever memory follows it: it is not part of the array
  afterwards, and what it overwrites there is not modelled.  A reply shorter than
  the transfer leaves the remaining bytes as they were.
\<close>

fun overlay :: "u8 list \<Rightarrow> u8 list \<Rightarrow> u8 list" where
  "overlay [] buf = buf"
| "overlay (r # rs) [] = []"
| "overlay (r # rs) (b # bs) = r # overlay rs bs"

text \<open>
  \<open>int wiringPiSPIxDataRW(number, channel, data, int len)\<close>: \<open>None\<close> when the
  script has no reply left, otherwise the return value, the array afterwards and
  the state.  A negative \<open>len\<close> is no byte count: the library hands it to the
  kernel as an unsigned length of at least \<open>2^31\<close>, which no SPI buffer holds, and
  the call fails with -1 before anything is exchanged.
\<close>

definition wiringPiSPIxDataRW :: "env \<Rightarrow> u8 list \<Rightarrow> int \<Rightarrow> (int \<times> u8 list \<times> env) option" where
  "wiringPiSPIxDataRW s data len =
     (if len < 0 then Some (- 1, data, s)
      else
        case script s of
          [] \<Rightarrow> None
        | r # rest \<Rightarrow>
            (let s' = s\<lparr>sent := sent s @ [frame_of data (nat len)], script := rest\<rparr> in
             case r of
               Fail \<Rightarrow> Some (- 1, data, s')
             | Resp rx \<Rightarrow> Some (len, overlay (take (nat len) rx) data, s')))"

text \<open>
  The argument \<open>len\<close> is an \<open>int\<close> of 32 bits; the callers compute it as a
  \<open>size_t\<close>.  The conversion keeps the low 32 bits and reads them as two's
  complement (as gcc defines it).  On a \<open>size_t\<close> of 32 or of 64 bits the sum
  \<open>length + 1\<close> wraps at a multiple of \<open>2^32\<close>, so the low 32 bits of the wrapped
  sum are those of the exact sum, and the conversion is applied to the exact sum.
\<close>

definition size_t_to_int :: "nat \<Rightarrow> int" where
  "size_t_to_int n = sint (word_of_nat n :: 32 word)"

subsection \<open>Outcomes\<close>

text \<open>
  \<open>exit(EXIT_FAILURE)\<close> and main's \<open>return -1\<close> end the process: \<open>Exit\<close> with the
  reason and the state reached.  \<open>Starved\<close>: the script ended before the call
  returned.
\<close>

datatype error =
    SpiSetupFailed
  | TransportError u8
  | DeviceIdentityMismatch u8
  | LogWriteFailed

datatype 'a result = Starved | Exit error env | Return 'a env

definition log :: "log_entry \<Rightarrow> env \<Rightarrow> env" where
  "log e s = s\<lparr>syslog := syslog s @ [e]\<rparr>"

subsection \<open>Elapsed time\<close>

text \<open>
  \<open>struct timespec\<close> has a \<open>time_t tv_sec\<close> and a \<open>long tv_nsec\<close>, both signed
  machine integers whose widths the platform fixes (32 or 64 bits); the widths are
  the parameters \<open>time_bits\<close> and \<open>long_bits\<close>.  Signed overflow is undefined in
  C: an operation whose exact result does not fit yields \<open>None\<close>.
\<close>

record timespec =
  tv_sec :: int
  tv_nsec :: int

definition fits :: "nat \<Rightarrow> int \<Rightarrow> bool" where
  "fits w x = (- (2 ^ (w - 1)) \<le> x \<and> x < 2 ^ (w - 1))"

definition checked :: "nat \<Rightarrow> int \<Rightarrow> int option" where
  "checked w x = (if fits w x then Some x else None)"

definition get_elapsed_time :: "nat \<Rightarrow> nat \<Rightarrow> timespec \<Rightarrow> timespec \<Rightarrow> timespec option" where
  "get_elapsed_time time_bits long_bits start end' =
     (case checked long_bits (tv_nsec end' - tv_nsec start) of
        None \<Rightarrow> None
      | Some d \<Rightarrow>
          if d < 0 then
            Option.bind (checked time_bits (tv_sec end' - tv_sec start)) (\<lambda>a.
            Option.bind (checked time_bits (a - 1)) (\<lambda>sec.
            Option.bind (checked long_bits (1000000000 + tv_nsec end')) (\<lambda>b.
            Option.bind (checked long_bits (b - tv_nsec start)) (\<lambda>nsec.
              Some \<lparr>tv_sec = sec, tv_nsec = nsec\<rparr>))))
          else
            Option.bind (checked time_bits (tv_sec end' - tv_sec start)) (\<lambda>sec.
            Option.bind (checked long_bits (tv_nsec end' - tv_nsec start)) (\<lambda>nsec.
              Some \<lparr>tv_sec = sec, tv_nsec = nsec\<rparr>)))"

text \<open>A time as a number of nanoseconds.\<close>

definition nanos :: "timespec \<Rightarrow> int" where
  "nanos t = tv_sec t * 1000000000 + tv_nsec t"

subsection \<open>Register access\<close>

text \<open>
  \<open>ldc1101_set_reg\<close>: \<open>uint8_t data[2] = {reg, value}\<close>, one transfer of
  \<open>sizeof(data) = 2\<close> bytes; a failed transfer is logged and ends the process.
\<close>

definition ldc1101_set_reg :: "env \<Rightarrow> u8 \<Rightarrow> u8 \<Rightarrow> int result" where
  "ldc1101_set_reg s reg val =
     (case wiringPiSPIxDataRW s [reg, val] (size_t_to_int 2) of
        None \<Rightarrow> Starved
      | Some (ret_val, data, s') \<Rightarrow>
          if ret_val = - 1 then Exit (TransportError reg) (log (Err_write_reg reg) s')
          else Return 0 s')"

text \<open>
  \<open>ldc1101_read_reg\<close>: \<open>data[0] = 1<<7|reg\<close>, then one transfer whose length
  is the \<open>size_t\<close> sum \<open>length + 1\<close> converted to \<open>int\<close>.  \<open>length'\<close> is the
  value of the \<open>size_t\<close> argument.  The callers' arrays are never empty.
\<close>

definition read_address :: "u8 \<Rightarrow> u8" where
  "read_address reg = ucast ((push_bit 7 (1 :: u32)) OR ucast reg)"

definition ldc1101_read_reg :: "env \<Rightarrow> u8 \<Rightarrow> u8 list \<Rightarrow> nat \<Rightarrow> (int \<times> u8 list \<times> env) option" where
  "ldc1101_read_reg s reg data length' =
     (case wiringPiSPIxDataRW s (data[0 := read_address reg]) (size_t_to_int (length' + 1)) of
        None \<Rightarrow> None
      | Some (ret_val, data', s') \<Rightarrow>
          if ret_val = - 1 then Some (- 1, data', log (Err_read_reg reg) s')
          else Some (0, data', s'))"

subsection \<open>Initialisation\<close>

text \<open>
  The RP_SET byte of \<open>ldc1101_init\<close>:
  \<open>(HIGH_Q_SENSOR | ((rpmax<<4) & rpmax_mask) | (rpmin & rpmin_mask)) & reserved\<close>
  with \<open>HIGH_Q_SENSOR = high_q << 7\<close>, \<open>rpmax_mask = 0x70\<close>, \<open>rpmin_mask = 0x07\<close>
  and \<open>reserved = (uint8_t)~0x08\<close>.  The source fixes \<open>high_q = 0\<close>,
  \<open>rpmax = 0x00\<close>, \<open>rpmin = 0x07\<close>; they are the parameters here.
\<close>

definition rpmin_mask :: u8 where "rpmin_mask = 0x07"
definition rpmax_mask :: u8 where "rpmax_mask = 0x70"
definition reserved :: u8 where "reserved = ucast (NOT (0x08 :: u32))"

definition rp_value :: "u32 \<Rightarrow> u8 \<Rightarrow> u8 \<Rightarrow> u8" where
  "rp_value high_q rpmax rpmin =
     ucast ((push_bit 7 high_q
             OR (push_bit 4 (ucast rpmax :: u32) AND ucast rpmax_mask)
             OR (ucast rpmin AND ucast rpmin_mask))
            AND ucast reserved)"

text \<open>Sequencing of calls that may end the process.\<close>

definition and_then :: "'a result \<Rightarrow> (env \<Rightarrow> 'b result) \<Rightarrow> 'b result" where
  "and_then r f = (case r of Starved \<Rightarrow> Starved | Exit e s \<Rightarrow> Exit e s | Return _ s \<Rightarrow> f s)"

definition rcount :: "16 word" where "rcount = 0xffff"

definition ldc1101_init :: "env \<Rightarrow> int result" where
  "ldc1101_init s0 =
     (let s1 = log (Info_spi_fd (setup_fd s0)) s0 in
      if setup_fd s0 = - 1 then Exit SpiSetupFailed (log Err_spi_init s1)
      else
        and_then (ldc1101_set_reg (log Info_spi_initialized s1) LDC1101_ALT_CONFIG LOPTIMAL) (\<lambda>s.
        and_then (ldc1101_set_reg s LDC1101_D_CONF DOK_REPORT) (\<lambda>s.
        and_then (ldc1101_set_reg s LDC1101_LHR_RCOUNT_MSB (ucast (drop_bit 8 rcount AND 0xFF))) (\<lambda>s.
        and_then (ldc1101_set_reg s LDC1101_LHR_RCOUNT_LSB (ucast (rcount AND 0xFF))) (\<lambda>s.
        and_then (ldc1101_set_reg s LDC1101_RP_SET (rp_value 0 0x00 0x07)) (\<lambda>s.
          (case ldc1101_read_reg s LDC1101_CHIP_ID [LDC1101_CHIP_ID, 0] 2 of
             None \<Rightarrow> Starved
           | Some (ret_val, data, s') \<Rightarrow>
               if ret_val = - 1 then Exit (TransportError LDC1101_CHIP_ID) (log Err_read_id s')
               else if data ! 1 \<noteq> SPI_DEV_ID
                 then Exit (DeviceIdentityMismatch (data ! 1)) (log (Err_unexpected_id (data ! 1)) s')
               else ldc1101_set_reg (log (Info_id_verified (data ! 1)) s') LDC1101_START_CONFIG 0)))))))"

subsection \<open>Sampling\<close>

text \<open>
  The busy-poll of main:
  \<open>status = 1; while (status != 0) { uint8_t data[2] = {reg, 0};
  ret = ldc1101_read_reg(reg, data, sizeof(data)); status = data[1] & LDC1101_LHR_DRDY; }\<close>.
  The return value of the read is not examined.  Every pass takes one reply from
  the script; \<open>None\<close> when the script ends while the loop is still spinning.
\<close>

function busy_poll :: "env \<Rightarrow> env option" where
  "busy_poll s =
     (case ldc1101_read_reg s LDC1101_LHR_STATUS [LDC1101_LHR_STATUS, 0] 2 of
        None \<Rightarrow> None
      | Some (ret, data, s') \<Rightarrow>
          if (ucast (ucast (data ! 1) AND LDC1101_LHR_DRDY) :: u8) \<noteq> 0 then busy_poll s'
          else Some s')"
  by pat_completeness auto
termination
  by (relation "measure (\<lambda>s. length (script s))")
    (auto simp: ldc1101_read_reg_def wiringPiSPIxDataRW_def size_t_to_int_def log_def Let_def
      split: option.splits if_splits list.splits reply.splits)

declare busy_poll.simps [simp del]

text \<open>
  \<open>value = (data[3] << 16) | (data[2] << 8) | data[1]\<close> on the four-byte array of
  the data read.
\<close>

definition decode_sample :: "u8 list \<Rightarrow> u32" where
  "decode_sample data =
     push_bit 16 (ucast (data ! 3)) OR push_bit 8 (ucast (data ! 2)) OR ucast (data ! 1)"

text \<open>
  One pass of the inner \<open>for\<close> loop of main: poll, read the data with
  \<open>uint8_t data[4] = {0, 0, 0, 0}\<close> and \<open>sizeof(data)\<close>, then either log the failed
  read, or decode the value and append the row.  A failed \<open>write\<close> of the row makes
  main return -1.  The time stamp of the row comes from the clock and is left out.
\<close>

definition sample_once :: "env \<Rightarrow> unit result" where
  "sample_once s =
     (case busy_poll s of
        None \<Rightarrow> Starved
      | Some s1 \<Rightarrow>
          (case ldc1101_read_reg s1 LDC1101_LHR_DATA_LSB [0, 0, 0, 0] 4 of
             None \<Rightarrow> Starved
           | Some (ret, data, s2) \<Rightarrow>
               if ret = - 1 then Return () (log Err_read_value s2)
               else if write_ok s2 (length (rows s2))
                 then Return () (s2\<lparr>rows := rows s2 @ [decode_sample data]\<rparr>)
               else Exit LogWriteFailed (log Err_write_log s2)))"

text \<open>\<open>for (int i = 0; i < num_samples; i++)\<close>.\<close>

fun sample_loop :: "nat \<Rightarrow> env \<Rightarrow> unit result" where
  "sample_loop 0 s = Return () s"
| "sample_loop (Suc n) s = and_then (sample_once s) (sample_loop n)"

subsection \<open>The initialisation sequence of the spec\<close>

text \<open>
  Section 4.2 of the spec lists the transfers of a complete initialisation:
  ALT_CONFIG, D_CONF, LHR_RCOUNT MSB then LSB, RP_SET, the CHIP_ID read and the
  START_CONFIG write.  This is that list as frames, to compare \<open>ldc1101_init\<close>
  with; the third byte of the identity read lies beyond the two-byte array.
\<close>

definition spec_init_frames :: "u8 option list list" where
  "spec_init_frames =
     [[Some 0x05, Some 0x01], [Some 0x0C, Some 0x01], [Some 0x31, Some 0xFF],
      [Some 0x30, Some 0xFF], [Some 0x01, Some 0x07], [Some 0xBF, Some 0, None],
      [Some 0x0B, Some 0]]"

subsection \<open>An environment to run examples in\<close>

text \<open>
  The state at the start of the program against a device that answers with the
  given script: nothing sent or logged yet, the SPI set-up succeeded with
  descriptor 3, and every write to the log file succeeds.
\<close>

definition fresh :: "reply list \<Rightarrow> env" where
  "fresh sc = \<lparr>sent = [], script = sc, setup_fd = 3, syslog = [], rows = [], write_ok = (\<lambda>k. True)\<rparr>"

section \<open>Properties\<close>

subsection \<open>Single transfers\<close>

lemmas reg_defs =
  LDC1101_RP_SET_def LDC1101_ALT_CONFIG_def LDC1101_START_CONFIG_def
  LDC1101_D_CONF_def LDC1101_LHR_RCOUNT_LSB_def LDC1101_LHR_RCOUNT_MSB_def
  LDC1101_LHR_DATA_LSB_def LDC1101_LHR_STATUS_def LDC1101_CHIP_ID_def
  LDC1101_LHR_DRDY_def LOPTIMAL_def DOK_REPORT_def SPI_DEV_ID_def

lemma frame_of_Nil [simp]: "frame_of buf 0 = []"
  by (simp add: frame_of_def)

lemma frame_of_Suc_Cons [simp]: "frame_of (b # bs) (Suc n) = Some b # frame_of bs n"
  by (simp add: frame_of_def buf_at_def upt_conv_Cons map_Suc_upt [symmetric] del: upt_Suc)

lemma frame_of_Suc_Nil [simp]: "frame_of [] (Suc n) = None # frame_of [] n"
  by (simp add: frame_of_def buf_at_def upt_conv_Cons map_Suc_upt [symmetric] del: upt_Suc)

lemma frame_of_length [simp]: "length (frame_of buf n) = n"
  by (simp add: frame_of_def)

lemma frame_of_whole: "frame_of buf (length buf) = map Some buf"
  by (induction buf) simp_all


lemma size_t_to_int_small: "n < 2147483648 \<Longrightarrow> size_t_to_int n = int n"
  by (simp add: size_t_to_int_def signed_of_nat signed_take_bit_int_eq_self)

lemma size_t_to_int_wraps:
  "size_t_to_int (2147483647 + 1) = - 2147483648" "size_t_to_int (4294967295 + 1) = 0"
  by (simp_all add: size_t_to_int_def)

lemma transfer_Resp:
  "script s = Resp rx # rest \<Longrightarrow>
   wiringPiSPIxDataRW s data (int len) =
     Some (int len, overlay (take len rx) data, s\<lparr>sent := sent s @ [frame_of data len], script := rest\<rparr>)"
  by (simp add: wiringPiSPIxDataRW_def)

lemma transfer_Fail:
  "script s = Fail # rest \<Longrightarrow>
   wiringPiSPIxDataRW s data (int len) =
     Some (- 1, data, s\<lparr>sent := sent s @ [frame_of data len], script := rest\<rparr>)"
  by (simp add: wiringPiSPIxDataRW_def)

lemma transfer_Nil: "script s = [] \<Longrightarrow> wiringPiSPIxDataRW s data (int len) = None"
  by (simp add: wiringPiSPIxDataRW_def)

lemma transfer_refused: "len < 0 \<Longrightarrow> wiringPiSPIxDataRW s data len = Some (- 1, data, s)"
  by (simp add: wiringPiSPIxDataRW_def)

lemma set_reg_Resp:
  "script s = Resp rx # rest \<Longrightarrow>
   ldc1101_set_reg s reg v = Return 0 (s\<lparr>sent := sent s @ [[Some reg, Some v]], script := rest\<rparr>)"
  by (simp add: ldc1101_set_reg_def size_t_to_int_small transfer_Resp [where len = 2, simplified]
      numeral_2_eq_2)

lemma set_reg_Fail:
  "script s = Fail # rest \<Longrightarrow>
   ldc1101_set_reg s reg v =
     Exit (TransportError reg) (log (Err_write_reg reg) (s\<lparr>sent := sent s @ [[Some reg, Some v]], script := rest\<rparr>))"
  by (simp add: ldc1101_set_reg_def size_t_to_int_small transfer_Fail [where len = 2, simplified]
      numeral_2_eq_2)

lemma set_reg_Nil: "script s = [] \<Longrightarrow> ldc1101_set_reg s reg v = Starved"
  by (simp add: ldc1101_set_reg_def size_t_to_int_small transfer_Nil [where len = 2, simplified])

lemma read_reg_Resp:
  "n < 2147483647 \<Longrightarrow> script s = Resp rx # rest \<Longrightarrow>
   ldc1101_read_reg s reg data n =
     Some (0, overlay (take (Suc n) rx) (data[0 := read_address reg]),
           s\<lparr>sent := sent s @ [frame_of (data[0 := read_address reg]) (Suc n)], script := rest\<rparr>)"
  using transfer_Resp [of s rx rest "data[0 := read_address reg]" "Suc n"]
  by (simp add: ldc1101_read_reg_def size_t_to_int_small)

lemma read_reg_Fail:
  "n < 2147483647 \<Longrightarrow> script s = Fail # rest \<Longrightarrow>
   ldc1101_read_reg s reg data n =
     Some (- 1, data[0 := read_address reg],
           log (Err_read_reg reg) (s\<lparr>sent := sent s @ [frame_of (data[0 := read_address reg]) (Suc n)], script := rest\<rparr>))"
  using transfer_Fail [of s rest "data[0 := read_address reg]" "Suc n"]
  by (simp add: ldc1101_read_reg_def size_t_to_int_small)

lemma read_reg_Nil:
  "n < 2147483647 \<Longrightarrow> script s = [] \<Longrightarrow> ldc1101_read_reg s reg data n = None"
  using transfer_Nil [of s "data[0 := read_address reg]" "Suc n"]
  by (simp add: ldc1101_read_reg_def size_t_to_int_small)

subsection \<open>Words\<close>

lemma read_address_or: "read_address a = a OR 0x80"
  unfolding read_address_def
  by (rule bit_word_eqI) (auto simp add: bit_simps)

lemma and_7F_id: "a \<le> 0x7F \<Longrightarrow> a AND 0x7F = (a :: u8)"
proof -
  assume "a \<le> 0x7F"
  then have "uint a < 2 ^ 7" by (simp add: word_le_def)
  then have "a AND mask 7 = a" by (simp add: mask_eq_iff)
  then show ?thesis by (simp add: mask_eq_exp_minus_1)
qed

lemma decode_sample_or:
  "decode_sample [a, b0, b1, b2] = ucast b0 OR push_bit 8 (ucast b1) OR push_bit 16 (ucast b2)"
  by (simp add: decode_sample_def ac_simps)

lemma decode_sample_plus:
  "decode_sample [a, b0, b1, b2] = ucast b0 + (256 * ucast b1 + 65536 * ucast b2)"
proof -
  have d1: "push_bit 8 (ucast b1 :: u32) AND push_bit 16 (ucast b2) = 0"
    by (rule bit_word_eqI) (auto simp add: bit_simps dest: bit_imp_le_length)
  have d2: "(ucast b0 :: u32) AND (push_bit 8 (ucast b1) OR push_bit 16 (ucast b2)) = 0"
    by (rule bit_word_eqI) (auto simp add: bit_simps dest: bit_imp_le_length)
  have "decode_sample [a, b0, b1, b2] = ucast b0 + (push_bit 8 (ucast b1) + push_bit 16 (ucast b2))"
    unfolding decode_sample_or
    by (simp only: disjunctive_add_eq_or [OF d1] disjunctive_add_eq_or [OF d2])
  then show ?thesis by (simp add: push_bit_eq_mult)
qed

lemma unat_byte_less: "unat (b :: u8) < 256"
  using unsigned_less [of b, where 'a = nat] by simp

lemma unat_ucast_byte: "unat (ucast (b :: u8) :: u32) = unat b"
  by (simp add: unsigned_ucast_eq take_bit_nat_eq_self unat_byte_less [THEN less_trans])

lemma decode_sample_unat:
  "unat (decode_sample [a, b0, b1, b2]) = unat b0 + 256 * unat b1 + 65536 * unat b2"
  unfolding decode_sample_plus
  using unat_byte_less [of b0] unat_byte_less [of b1] unat_byte_less [of b2]
  by (simp add: unat_word_ariths unat_ucast_byte)

subsection \<open>C6: decoding the sample\<close>

text \<open>
  C6.  On the array \<open>[a, b0, b1, b2]\<close> left by the data read (\<open>a\<close> sits in the
  address byte's place, \<open>b0\<close>, \<open>b1\<close>, \<open>b2\<close> are the response bytes in ascending
  register order) the decoded value is \<open>b0 | (b1 << 8) | (b2 << 16)\<close>.  Read as an
  unsigned number it is \<open>b0 + 256 b1 + 65536 b2\<close>, so nothing is sign-extended
  and it lies below \<open>2^24\<close>; \<open>[0x01, 0x02, 0x03]\<close> gives \<open>0x030201\<close> and
  \<open>[0, 0, 1]\<close> gives 65536.
\<close>

theorem decode_sample_little_endian:
  "decode_sample [a, b0, b1, b2] = ucast b0 OR push_bit 8 (ucast b1) OR push_bit 16 (ucast b2)
   \<and> unat (decode_sample [a, b0, b1, b2]) = unat b0 + 256 * unat b1 + 65536 * unat b2
   \<and> unat (decode_sample [a, b0, b1, b2]) < 2 ^ 24
   \<and> decode_sample [a, 0x01, 0x02, 0x03] = 0x030201
   \<and> decode_sample [a, 0, 0, 1] = 65536"
proof -
  have "unat b0 + 256 * unat b1 + 65536 * unat b2 < 2 ^ 24"
    using unat_byte_less [of b0] unat_byte_less [of b1] unat_byte_less [of b2] by simp
  then have "unat (decode_sample [a, b0, b1, b2]) < 2 ^ 24"
    by (simp only: decode_sample_unat)
  moreover have "decode_sample [a, 0x01, 0x02, 0x03] = 0x030201" "decode_sample [a, 0, 0, 1] = 65536"
    by (simp_all add: decode_sample_def)
  ultimately show ?thesis
    using decode_sample_unat [of a b0 b1 b2] decode_sample_or [of a b0 b1 b2] by blast
qed

lemma rp_masks:
  "(ucast rpmax_mask :: u32) = push_bit 4 (mask 3)"
  "(ucast rpmin_mask :: u32) = mask 3"
  "(ucast reserved :: u32) = mask 8 AND NOT (push_bit 3 1)"
  by (simp_all add: rpmax_mask_def rpmin_mask_def reserved_def mask_eq_exp_minus_1)

lemma bit_8_iff: "bit (8 :: int) n = (n = 3)"
proof -
  have e: "(8 :: int) = 2 ^ 3" by simp
  show ?thesis unfolding e by (simp only: bit_exp_iff) auto
qed

lemma rp_value_bit:
  "bit (rp_value high_q rpmax rpmin) n =
     (n = 7 \<and> bit high_q 0 \<or> 4 \<le> n \<and> n < 7 \<and> bit rpmax (n - 4) \<or> n < 3 \<and> bit rpmin n)"
  unfolding rp_value_def rp_masks
  by (auto simp add: bit_simps bit_8_iff dest: bit_imp_le_length)

subsection \<open>C9: the RP_SET byte\<close>

text \<open>
  C9.  In the RP_SET byte bit 7 is the selector bit, bits 6:4 are the low three
  bits of \<open>rpmax\<close>, bit 3 is 0 and bits 2:0 are the low three bits of \<open>rpmin\<close>;
  for \<open>rpmin = 0x07\<close>, \<open>rpmax = 0x00\<close>, \<open>high_q = 0\<close> the byte is \<open>0x07\<close>.
\<close>

theorem rp_value_fields:
  "bit (rp_value high_q rpmax rpmin) 7 = bit high_q 0
   \<and> take_bit 3 (drop_bit 4 (rp_value high_q rpmax rpmin)) = take_bit 3 rpmax
   \<and> \<not> bit (rp_value high_q rpmax rpmin) 3
   \<and> take_bit 3 (rp_value high_q rpmax rpmin) = take_bit 3 rpmin
   \<and> rp_value 0 0x00 0x07 = 0x07"
proof -
  have "take_bit 3 (drop_bit 4 (rp_value high_q rpmax rpmin)) = take_bit 3 rpmax"
    by (rule bit_word_eqI) (auto simp add: bit_simps rp_value_bit)
  moreover have "take_bit 3 (rp_value high_q rpmax rpmin) = take_bit 3 rpmin"
    by (rule bit_word_eqI) (auto simp add: bit_simps rp_value_bit)
  moreover have "rp_value 0 0x00 0x07 = 0x07"
    by (simp add: rp_value_def rpmin_mask_def rpmax_mask_def reserved_def)
  ultimately show ?thesis
    by (simp add: rp_value_bit)
qed

subsection \<open>Calls against the next reply of the script\<close>

lemma and_then_simps [simp]:
  "and_then Starved f = Starved"
  "and_then (Exit e s) f = Exit e s"
  "and_then (Return a s) f = f s"
  by (simp_all add: and_then_def)

lemma and_then_Return_iff:
  "and_then x f = Return r s' \<longleftrightarrow> (\<exists>a s1. x = Return a s1 \<and> f s1 = Return r s')"
  by (cases x) simp_all

lemma set_reg_unfold:
  "ldc1101_set_reg s reg v =
     (case script s of
        [] \<Rightarrow> Starved
      | Fail # rest \<Rightarrow>
          Exit (TransportError reg)
            (log (Err_write_reg reg) (s\<lparr>sent := sent s @ [[Some reg, Some v]], script := rest\<rparr>))
      | Resp rx # rest \<Rightarrow> Return 0 (s\<lparr>sent := sent s @ [[Some reg, Some v]], script := rest\<rparr>))"
  by (simp add: set_reg_Nil set_reg_Fail set_reg_Resp split: list.splits reply.splits)

lemma read_reg_unfold:
  "n < 2147483647 \<Longrightarrow> ldc1101_read_reg s reg data n =
     (case script s of
        [] \<Rightarrow> None
      | Fail # rest \<Rightarrow>
          Some (- 1, data[0 := read_address reg],
            log (Err_read_reg reg)
              (s\<lparr>sent := sent s @ [frame_of (data[0 := read_address reg]) (Suc n)], script := rest\<rparr>))
      | Resp rx # rest \<Rightarrow>
          Some (0, overlay (take (Suc n) rx) (data[0 := read_address reg]),
            s\<lparr>sent := sent s @ [frame_of (data[0 := read_address reg]) (Suc n)], script := rest\<rparr>))"
  by (simp add: read_reg_Nil read_reg_Fail read_reg_Resp split: list.splits reply.splits)

lemma set_reg_Return:
  "ldc1101_set_reg s reg v = Return r s' \<Longrightarrow>
     r = 0 \<and> sent s' = sent s @ [[Some reg, Some v]] \<and> syslog s' = syslog s \<and> setup_fd s' = setup_fd s
     \<and> (\<exists>rx. script s = Resp rx # script s')"
  by (auto simp add: set_reg_unfold split: list.splits reply.splits)

lemma set_reg_Exit:
  "ldc1101_set_reg s reg v = Exit e s' \<Longrightarrow>
     e = TransportError reg \<and> sent s' = sent s @ [[Some reg, Some v]] \<and> script s = Fail # script s'"
  by (auto simp add: set_reg_unfold log_def split: list.splits reply.splits)

text \<open>The frames of a complete initialisation.\<close>

lemma frame_of_numeral [simp]:
  "frame_of (b # bs) (numeral k) = Some b # frame_of bs (pred_numeral k)"
  "frame_of [] (numeral k) = None # frame_of [] (pred_numeral k)"
  by (simp_all add: numeral_eq_Suc)

lemma init_constants:
  "ucast (drop_bit 8 rcount AND 0xFF) = (0xFF :: u8)" "ucast (rcount AND 0xFF) = (0xFF :: u8)"
  "rp_value 0 0x00 0x07 = 0x07" "read_address LDC1101_CHIP_ID = 0xBF"
  "read_address LDC1101_LHR_STATUS = 0xBB" "read_address LDC1101_LHR_DATA_LSB = 0xB8"
  by (simp_all add: rcount_def rp_value_def rpmin_mask_def rpmax_mask_def reserved_def
      read_address_def reg_defs)

lemma log_simps [simp]:
  "sent (log e s) = sent s" "script (log e s) = script s" "setup_fd (log e s) = setup_fd s"
  "rows (log e s) = rows s" "write_ok (log e s) = write_ok s" "syslog (log e s) = syslog s @ [e]"
  by (simp_all add: log_def)

lemma read_reg_Some:
  "n < 2147483647 \<Longrightarrow> ldc1101_read_reg s reg data n = Some (ret, d, s') \<Longrightarrow>
     sent s' = sent s @ [frame_of (data[0 := read_address reg]) (Suc n)]
     \<and> rows s' = rows s \<and> write_ok s' = write_ok s \<and> setup_fd s' = setup_fd s
     \<and> (ret = - 1 \<and> script s = Fail # script s'
          \<or> ret = 0 \<and> (\<exists>rx. script s = Resp rx # script s'
                \<and> d = overlay (take (Suc n) rx) (data[0 := read_address reg])))"
  by (auto simp add: read_reg_unfold split: list.splits reply.splits)

lemma overlay_value_byte:
  "overlay (take 3 rx) [x, 0] ! 1 = v \<Longrightarrow> v \<noteq> 0 \<Longrightarrow> \<exists>r0 rs. rx = r0 # v # rs"
  by (cases rx; cases "tl rx") (auto simp add: numeral_3_eq_3)

lemma init_Return:
  assumes "ldc1101_init s = Return r s'"
  shows "r = 0 \<and> sent s' = sent s @ spec_init_frames
    \<and> (\<exists>a1 a2 a3 a4 a5 r0 rs a7.
          script s = Resp a1 # Resp a2 # Resp a3 # Resp a4 # Resp a5
                       # Resp (r0 # SPI_DEV_ID # rs) # Resp a7 # script s')"
proof -
  from assms have fd: "setup_fd s \<noteq> - 1"
    by (auto simp add: ldc1101_init_def Let_def split: if_splits)
  with assms obtain a1 s1 a2 s2 a3 s3 a4 s4 a5 s5 where
    w1: "ldc1101_set_reg (log Info_spi_initialized (log (Info_spi_fd (setup_fd s)) s))
           LDC1101_ALT_CONFIG LOPTIMAL = Return a1 s1" and
    w2: "ldc1101_set_reg s1 LDC1101_D_CONF DOK_REPORT = Return a2 s2" and
    w3: "ldc1101_set_reg s2 LDC1101_LHR_RCOUNT_MSB 0xFF = Return a3 s3" and
    w4: "ldc1101_set_reg s3 LDC1101_LHR_RCOUNT_LSB 0xFF = Return a4 s4" and
    w5: "ldc1101_set_reg s4 LDC1101_RP_SET 0x07 = Return a5 s5" and
    rd: "(case ldc1101_read_reg s5 LDC1101_CHIP_ID [LDC1101_CHIP_ID, 0] 2 of
            None \<Rightarrow> Starved
          | Some (ret_val, data, s') \<Rightarrow>
              if ret_val = - 1 then Exit (TransportError LDC1101_CHIP_ID) (log Err_read_id s')
              else if data ! 1 \<noteq> SPI_DEV_ID
                then Exit (DeviceIdentityMismatch (data ! 1)) (log (Err_unexpected_id (data ! 1)) s')
              else ldc1101_set_reg (log (Info_id_verified (data ! 1)) s') LDC1101_START_CONFIG 0)
          = Return r s'"
    by (auto simp add: ldc1101_init_def Let_def and_then_Return_iff init_constants)
  from rd obtain ret data s6 where
    r6: "ldc1101_read_reg s5 LDC1101_CHIP_ID [LDC1101_CHIP_ID, 0] 2 = Some (ret, data, s6)" and
    ok: "ret \<noteq> - 1" and idb: "data ! 1 = SPI_DEV_ID" and
    w7: "ldc1101_set_reg (log (Info_id_verified (data ! 1)) s6) LDC1101_START_CONFIG 0 = Return r s'"
    by (auto split: option.splits if_splits)
  have n2: "(2 :: nat) < 2147483647" by simp
  from read_reg_Some [OF n2 r6] ok obtain rx where
    sc6: "script s5 = Resp rx # script s6" and
    d6: "data = overlay (take 3 rx) [read_address LDC1101_CHIP_ID, 0]"
    by auto
  from idb d6 obtain r0 rs where rx: "rx = r0 # SPI_DEV_ID # rs"
    using overlay_value_byte [of rx "read_address LDC1101_CHIP_ID" SPI_DEV_ID]
    by (auto simp add: SPI_DEV_ID_def)
  have frames: "r = 0 \<and> sent s' = sent s @ spec_init_frames"
    using set_reg_Return [OF w1] set_reg_Return [OF w2] set_reg_Return [OF w3]
      set_reg_Return [OF w4] set_reg_Return [OF w5] read_reg_Some [OF n2 r6] set_reg_Return [OF w7]
    by (simp add: spec_init_frames_def reg_defs read_address_or)
  have "\<exists>a1 a2 a3 a4 a5 a7.
          script s = Resp a1 # Resp a2 # Resp a3 # Resp a4 # Resp a5
                       # Resp (r0 # SPI_DEV_ID # rs) # Resp a7 # script s'"
    using set_reg_Return [OF w1] set_reg_Return [OF w2] set_reg_Return [OF w3]
      set_reg_Return [OF w4] set_reg_Return [OF w5] sc6 rx set_reg_Return [OF w7]
    by auto
  with frames show ?thesis by blast
qed

subsection \<open>The identity check\<close>

lemma init_upto_identity:
  assumes "setup_fd s \<noteq> - 1"
    and "script s = Resp a1 # Resp a2 # Resp a3 # Resp a4 # Resp a5 # Resp (r0 # idb # rs) # rest"
  shows "ldc1101_init s =
     (let s6 = s\<lparr>sent := sent s @ take 6 spec_init_frames, script := rest,
               syslog := syslog s @ [Info_spi_fd (setup_fd s), Info_spi_initialized]\<rparr> in
      if idb \<noteq> SPI_DEV_ID
      then Exit (DeviceIdentityMismatch idb) (log (Err_unexpected_id idb) s6)
      else ldc1101_set_reg (log (Info_id_verified idb) s6) LDC1101_START_CONFIG 0)"
  using assms
  by (simp add: ldc1101_init_def Let_def set_reg_unfold read_reg_unfold init_constants
      read_address_or spec_init_frames_def reg_defs log_def numeral_3_eq_3
      cong: list.case_cong reply.case_cong)


subsection \<open>The busy-poll\<close>

lemma drdy_iff:
  "((ucast (ucast (b :: u8) AND LDC1101_LHR_DRDY) :: u8) \<noteq> 0) = bit b 0"
proof -
  have e: "(ucast (ucast b AND (1 :: u32)) :: u8) = b AND 1"
    by (rule bit_word_eqI) (auto simp add: bit_simps)
  have "((b AND 1) \<noteq> 0) = bit b 0"
    by (simp add: and_one_eq bit_0 odd_iff_mod_2_eq_one)
  then show ?thesis
    by (simp only: LDC1101_LHR_DRDY_def push_bit_0_id id_apply e)
qed

lemma busy_poll_unfold:
  "busy_poll s =
     (case script s of
        [] \<Rightarrow> None
      | Fail # rest \<Rightarrow>
          Some (log (Err_read_reg LDC1101_LHR_STATUS)
                 (s\<lparr>sent := sent s @ [[Some 0xBB, Some 0, None]], script := rest\<rparr>))
      | Resp rx # rest \<Rightarrow>
          if bit (overlay (take 3 rx) [0xBB, 0] ! 1) 0
          then busy_poll (s\<lparr>sent := sent s @ [[Some 0xBB, Some 0, None]], script := rest\<rparr>)
          else Some (s\<lparr>sent := sent s @ [[Some 0xBB, Some 0, None]], script := rest\<rparr>))"
  by (subst busy_poll.simps)
    (simp add: read_reg_unfold drdy_iff read_address_or LDC1101_LHR_STATUS_def
      split: list.splits reply.splits)

lemma sample_once_unfold:
  "sample_once s =
     (case busy_poll s of
        None \<Rightarrow> Starved
      | Some s1 \<Rightarrow>
          (case script s1 of
             [] \<Rightarrow> Starved
           | Fail # rest \<Rightarrow>
               Return () (log Err_read_value (log (Err_read_reg LDC1101_LHR_DATA_LSB)
                 (s1\<lparr>sent := sent s1 @ [[Some 0xB8, Some 0, Some 0, Some 0, None]], script := rest\<rparr>)))
           | Resp rx # rest \<Rightarrow>
               if write_ok s1 (length (rows s1))
               then Return () (s1\<lparr>sent := sent s1 @ [[Some 0xB8, Some 0, Some 0, Some 0, None]],
                      script := rest,
                      rows := rows s1 @ [decode_sample (overlay (take 5 rx) [0xB8, 0, 0, 0])]\<rparr>)
               else Exit LogWriteFailed (log Err_write_log
                      (s1\<lparr>sent := sent s1 @ [[Some 0xB8, Some 0, Some 0, Some 0, None]], script := rest\<rparr>))))"
  by (auto simp add: sample_once_def read_reg_unfold read_address_or LDC1101_LHR_DATA_LSB_def
      split: option.splits list.splits reply.splits)

subsection \<open>C4: the order of the initialisation writes\<close>

lemma and_then_Exit_iff:
  "and_then x f = Exit e s' \<longleftrightarrow>
     x = Exit e s' \<or> (\<exists>a s1. x = Return a s1 \<and> f s1 = Exit e s')"
  by (cases x) simp_all

lemma init_Exit_prefix:
  assumes "ldc1101_init s = Exit e s'"
  shows "\<exists>k\<le>7. sent s' = sent s @ take k spec_init_frames"
proof (cases "setup_fd s = - 1")
  case True
  with assms have "sent s' = sent s @ take 0 spec_init_frames"
    by (auto simp add: ldc1101_init_def Let_def)
  then show ?thesis by blast
next
  case False
  let ?s0 = "log Info_spi_initialized (log (Info_spi_fd (setup_fd s)) s)"
  let ?rd = "\<lambda>s5. (case ldc1101_read_reg s5 LDC1101_CHIP_ID [LDC1101_CHIP_ID, 0] 2 of
            None \<Rightarrow> Starved
          | Some (ret_val, data, s') \<Rightarrow>
              if ret_val = - 1 then Exit (TransportError LDC1101_CHIP_ID) (log Err_read_id s')
              else if data ! 1 \<noteq> SPI_DEV_ID
                then Exit (DeviceIdentityMismatch (data ! 1)) (log (Err_unexpected_id (data ! 1)) s')
              else ldc1101_set_reg (log (Info_id_verified (data ! 1)) s') LDC1101_START_CONFIG 0)"
  from assms False consider
      (w1) "ldc1101_set_reg ?s0 LDC1101_ALT_CONFIG LOPTIMAL = Exit e s'"
    | (w2) a1 s1 where "ldc1101_set_reg ?s0 LDC1101_ALT_CONFIG LOPTIMAL = Return a1 s1"
        "ldc1101_set_reg s1 LDC1101_D_CONF DOK_REPORT = Exit e s'"
    | (w3) a1 s1 a2 s2 where "ldc1101_set_reg ?s0 LDC1101_ALT_CONFIG LOPTIMAL = Return a1 s1"
        "ldc1101_set_reg s1 LDC1101_D_CONF DOK_REPORT = Return a2 s2"
        "ldc1101_set_reg s2 LDC1101_LHR_RCOUNT_MSB 0xFF = Exit e s'"
    | (w4) a1 s1 a2 s2 a3 s3 where "ldc1101_set_reg ?s0 LDC1101_ALT_CONFIG LOPTIMAL = Return a1 s1"
        "ldc1101_set_reg s1 LDC1101_D_CONF DOK_REPORT = Return a2 s2"
        "ldc1101_set_reg s2 LDC1101_LHR_RCOUNT_MSB 0xFF = Return a3 s3"
        "ldc1101_set_reg s3 LDC1101_LHR_RCOUNT_LSB 0xFF = Exit e s'"
    | (w5) a1 s1 a2 s2 a3 s3 a4 s4 where "ldc1101_set_reg ?s0 LDC1101_ALT_CONFIG LOPTIMAL = Return a1 s1"
        "ldc1101_set_reg s1 LDC1101_D_CONF DOK_REPORT = Return a2 s2"
        "ldc1101_set_reg s2 LDC1101_LHR_RCOUNT_MSB 0xFF = Return a3 s3"
        "ldc1101_set_reg s3 LDC1101_LHR_RCOUNT_LSB 0xFF = Return a4 s4"
        "ldc1101_set_reg s4 LDC1101_RP_SET 0x07 = Exit e s'"
    | (rd) a1 s1 a2 s2 a3 s3 a4 s4 a5 s5 where "ldc1101_set_reg ?s0 LDC1101_ALT_CONFIG LOPTIMAL = Return a1 s1"
        "ldc1101_set_reg s1 LDC1101_D_CONF DOK_REPORT = Return a2 s2"
        "ldc1101_set_reg s2 LDC1101_LHR_RCOUNT_MSB 0xFF = Return a3 s3"
        "ldc1101_set_reg s3 LDC1101_LHR_RCOUNT_LSB 0xFF = Return a4 s4"
        "ldc1101_set_reg s4 LDC1101_RP_SET 0x07 = Return a5 s5"
        "?rd s5 = Exit e s'"
    by (auto simp add: ldc1101_init_def Let_def and_then_Exit_iff init_constants)
  then show ?thesis
  proof cases
    case w1
    from set_reg_Exit [OF w1] have "sent s' = sent s @ take 1 spec_init_frames"
      by (simp add: spec_init_frames_def reg_defs)
    then show ?thesis by (intro exI [of _ 1]) simp
  next
    case w2
    from set_reg_Return [OF w2(1)] set_reg_Exit [OF w2(2)]
    have "sent s' = sent s @ take 2 spec_init_frames"
      by (simp add: spec_init_frames_def reg_defs)
    then show ?thesis by (intro exI [of _ 2]) simp
  next
    case w3
    from set_reg_Return [OF w3(1)] set_reg_Return [OF w3(2)] set_reg_Exit [OF w3(3)]
    have "sent s' = sent s @ take 3 spec_init_frames"
      by (simp add: spec_init_frames_def reg_defs)
    then show ?thesis by (intro exI [of _ 3]) simp
  next
    case w4
    from set_reg_Return [OF w4(1)] set_reg_Return [OF w4(2)] set_reg_Return [OF w4(3)]
      set_reg_Exit [OF w4(4)]
    have "sent s' = sent s @ take 4 spec_init_frames"
      by (simp add: spec_init_frames_def reg_defs)
    then show ?thesis by (intro exI [of _ 4]) simp
  next
    case w5
    from set_reg_Return [OF w5(1)] set_reg_Return [OF w5(2)] set_reg_Return [OF w5(3)]
      set_reg_Return [OF w5(4)] set_reg_Exit [OF w5(5)]
    have "sent s' = sent s @ take 5 spec_init_frames"
      by (simp add: spec_init_frames_def reg_defs)
    then show ?thesis by (intro exI [of _ 5]) simp
  next
    case rd
    from rd(6) obtain ret data s6 where
      r6: "ldc1101_read_reg s5 LDC1101_CHIP_ID [LDC1101_CHIP_ID, 0] 2 = Some (ret, data, s6)"
      by (auto split: option.splits)
    have s6: "sent s6 = sent s @ take 6 spec_init_frames"
      using set_reg_Return [OF rd(1)] set_reg_Return [OF rd(2)] set_reg_Return [OF rd(3)]
        set_reg_Return [OF rd(4)] set_reg_Return [OF rd(5)] read_reg_Some [OF _ r6]
      by (simp add: spec_init_frames_def reg_defs read_address_or)
    from rd(6) r6 consider "sent s' = sent s6"
      | "ldc1101_set_reg (log (Info_id_verified (data ! 1)) s6) LDC1101_START_CONFIG 0 = Exit e s'"
      by (auto split: if_splits)
    then show ?thesis
    proof cases
      case 1
      with s6 show ?thesis by (intro exI [of _ 6]) simp
    next
      case 2
      from set_reg_Exit [OF 2] s6 have "sent s' = sent s @ take 7 spec_init_frames"
        by (simp add: spec_init_frames_def reg_defs)
      then show ?thesis by (intro exI [of _ 7]) simp
    qed
  qed
qed

lemma spec_init_frames_named:
  "spec_init_frames =
     [[Some LDC1101_ALT_CONFIG, Some LOPTIMAL],
      [Some LDC1101_D_CONF, Some DOK_REPORT],
      [Some LDC1101_LHR_RCOUNT_MSB, Some 0xFF],
      [Some LDC1101_LHR_RCOUNT_LSB, Some 0xFF],
      [Some LDC1101_RP_SET, Some 0x07],
      [Some (LDC1101_CHIP_ID OR 0x80), Some 0, None],
      [Some LDC1101_START_CONFIG, Some 0]]"
  by (simp add: spec_init_frames_def reg_defs)

lemma run_init_good:
  "ldc1101_init (fresh [Resp [0, 0], Resp [0, 0], Resp [0, 0], Resp [0, 0], Resp [0, 0],
                        Resp [0, 0xD4, 0], Resp [0, 0]])
     = Return 0 \<lparr>sent = spec_init_frames, script = [], setup_fd = 3,
         syslog = [Info_spi_fd 3, Info_spi_initialized, Info_id_verified 0xD4],
         rows = [], write_ok = (\<lambda>k. True)\<rparr>"
  by (simp add: init_upto_identity [where rest = "[Resp [0, 0]]"] fresh_def set_reg_unfold
      log_def spec_init_frames_def reg_defs)

lemma run_init_fourth_write_fails:
  "ldc1101_init (fresh [Resp [0, 0], Resp [0, 0], Resp [0, 0], Fail, Resp [0, 0]])
     = Exit (TransportError LDC1101_LHR_RCOUNT_LSB)
         \<lparr>sent = take 4 spec_init_frames, script = [Resp [0, 0]], setup_fd = 3,
          syslog = [Info_spi_fd 3, Info_spi_initialized, Err_write_reg LDC1101_LHR_RCOUNT_LSB],
          rows = [], write_ok = (\<lambda>k. True)\<rparr>"
  by (simp add: ldc1101_init_def Let_def fresh_def set_reg_unfold log_def init_constants
      spec_init_frames_def reg_defs)

text \<open>
  C4.  Every run of \<open>ldc1101_init\<close> that returns has issued exactly these
  transfers, in this order: the writes to ALT_CONFIG, D_CONF, LHR_RCOUNT_MSB,
  LHR_RCOUNT_LSB and RP_SET, the identity read, and the write of 0 to
  START_CONFIG.  Each of the seven was answered by the device, and the answer to
  the identity read carried the value byte \<open>0xD4\<close>: the START_CONFIG write of a
  returning run comes after an identity read that succeeded and matched.  A run
  that ends the process has issued the first \<open>k\<close> of the transfers, in the same
  order, for some \<open>k\<close>: no run issues them in another order.
\<close>

theorem init_writes_in_fixed_order:
  "(ldc1101_init s = Return r s' \<longrightarrow>
      sent s' = sent s @
     [[Some LDC1101_ALT_CONFIG, Some LOPTIMAL],
      [Some LDC1101_D_CONF, Some DOK_REPORT],
      [Some LDC1101_LHR_RCOUNT_MSB, Some 0xFF],
      [Some LDC1101_LHR_RCOUNT_LSB, Some 0xFF],
      [Some LDC1101_RP_SET, Some 0x07],
      [Some (LDC1101_CHIP_ID OR 0x80), Some 0, None],
      [Some LDC1101_START_CONFIG, Some 0]]
      \<and> (\<exists>a1 a2 a3 a4 a5 r0 rs a7.
            script s = Resp a1 # Resp a2 # Resp a3 # Resp a4 # Resp a5
                         # Resp (r0 # SPI_DEV_ID # rs) # Resp a7 # script s'))
   \<and> (ldc1101_init s = Exit e s'' \<longrightarrow> (\<exists>k\<le>7. sent s'' = sent s @ take k
     [[Some LDC1101_ALT_CONFIG, Some LOPTIMAL],
      [Some LDC1101_D_CONF, Some DOK_REPORT],
      [Some LDC1101_LHR_RCOUNT_MSB, Some 0xFF],
      [Some LDC1101_LHR_RCOUNT_LSB, Some 0xFF],
      [Some LDC1101_RP_SET, Some 0x07],
      [Some (LDC1101_CHIP_ID OR 0x80), Some 0, None],
      [Some LDC1101_START_CONFIG, Some 0]]))"
  using init_Return [of s r s'] init_Exit_prefix [of s e s'']
  by (simp only: spec_init_frames_named) blast

theorem init_writes_in_fixed_order_witness:
  "(\<exists>s'. ldc1101_init (fresh [Resp [0, 0], Resp [0, 0], Resp [0, 0], Resp [0, 0], Resp [0, 0],
                        Resp [0, 0xD4, 0], Resp [0, 0]]) = Return 0 s'
      \<and> sent s' =
     [[Some LDC1101_ALT_CONFIG, Some LOPTIMAL],
      [Some LDC1101_D_CONF, Some DOK_REPORT],
      [Some LDC1101_LHR_RCOUNT_MSB, Some 0xFF],
      [Some LDC1101_LHR_RCOUNT_LSB, Some 0xFF],
      [Some LDC1101_RP_SET, Some 0x07],
      [Some (LDC1101_CHIP_ID OR 0x80), Some 0, None],
      [Some LDC1101_START_CONFIG, Some 0]]
      \<and> (\<exists>a1 a2 a3 a4 a5 r0 rs a7.
            script (fresh [Resp [0, 0], Resp [0, 0], Resp [0, 0], Resp [0, 0], Resp [0, 0],
                        Resp [0, 0xD4, 0], Resp [0, 0]])
              = Resp a1 # Resp a2 # Resp a3 # Resp a4 # Resp a5
                  # Resp (r0 # SPI_DEV_ID # rs) # Resp a7 # script s'))
   \<and> (\<exists>s'' k. ldc1101_init (fresh [Resp [0, 0], Resp [0, 0], Resp [0, 0], Fail, Resp [0, 0]])
        = Exit (TransportError LDC1101_LHR_RCOUNT_LSB) s''
      \<and> k \<le> 7 \<and> sent s'' = take k
     [[Some LDC1101_ALT_CONFIG, Some LOPTIMAL],
      [Some LDC1101_D_CONF, Some DOK_REPORT],
      [Some LDC1101_LHR_RCOUNT_MSB, Some 0xFF],
      [Some LDC1101_LHR_RCOUNT_LSB, Some 0xFF],
      [Some LDC1101_RP_SET, Some 0x07],
      [Some (LDC1101_CHIP_ID OR 0x80), Some 0, None],
      [Some LDC1101_START_CONFIG, Some 0]])"
proof (intro conjI)
  show "\<exists>s'. ldc1101_init (fresh [Resp [0, 0], Resp [0, 0], Resp [0, 0], Resp [0, 0], Resp [0, 0],
                        Resp [0, 0xD4, 0], Resp [0, 0]]) = Return 0 s'
      \<and> sent s' =
     [[Some LDC1101_ALT_CONFIG, Some LOPTIMAL],
      [Some LDC1101_D_CONF, Some DOK_REPORT],
      [Some LDC1101_LHR_RCOUNT_MSB, Some 0xFF],
      [Some LDC1101_LHR_RCOUNT_LSB, Some 0xFF],
      [Some LDC1101_RP_SET, Some 0x07],
      [Some (LDC1101_CHIP_ID OR 0x80), Some 0, None],
      [Some LDC1101_START_CONFIG, Some 0]]
      \<and> (\<exists>a1 a2 a3 a4 a5 r0 rs a7.
            script (fresh [Resp [0, 0], Resp [0, 0], Resp [0, 0], Resp [0, 0], Resp [0, 0],
                        Resp [0, 0xD4, 0], Resp [0, 0]])
              = Resp a1 # Resp a2 # Resp a3 # Resp a4 # Resp a5
                  # Resp (r0 # SPI_DEV_ID # rs) # Resp a7 # script s')"
    using init_writes_in_fixed_order [THEN conjunct1, rule_format, OF run_init_good] run_init_good
    by (simp add: fresh_def)
  show "\<exists>s'' k. ldc1101_init (fresh [Resp [0, 0], Resp [0, 0], Resp [0, 0], Fail, Resp [0, 0]])
        = Exit (TransportError LDC1101_LHR_RCOUNT_LSB) s''
      \<and> k \<le> 7 \<and> sent s'' = take k
     [[Some LDC1101_ALT_CONFIG, Some LOPTIMAL],
      [Some LDC1101_D_CONF, Some DOK_REPORT],
      [Some LDC1101_LHR_RCOUNT_MSB, Some 0xFF],
      [Some LDC1101_LHR_RCOUNT_LSB, Some 0xFF],
      [Some LDC1101_RP_SET, Some 0x07],
      [Some (LDC1101_CHIP_ID OR 0x80), Some 0, None],
      [Some LDC1101_START_CONFIG, Some 0]]"
    using init_writes_in_fixed_order [THEN conjunct2, rule_format, OF run_init_fourth_write_fails]
      run_init_fourth_write_fails
    by (simp add: fresh_def)
qed

subsection \<open>C3: the identity check\<close>

text \<open>
  C3.  Let the five configuration writes succeed and the identity read return the
  value byte \<open>idb\<close>.  If \<open>idb\<close> differs from \<open>0xD4\<close>, \<open>ldc1101_init\<close> ends the
  process with \<open>DeviceIdentityMismatch\<close>, logs the unexpected identity, has made no
  transfer after the identity read and has issued no write to START_CONFIG.  If
  \<open>idb\<close> is \<open>0xD4\<close>, the next transfer is the write of 0 to START_CONFIG.
\<close>

theorem identity_check_gates_start:
  assumes "setup_fd s \<noteq> - 1"
    and "script s = Resp a1 # Resp a2 # Resp a3 # Resp a4 # Resp a5 # Resp (r0 # idb # rs) # r7 # rest"
  shows "(idb \<noteq> 0xD4 \<longrightarrow>
            (\<exists>s'. ldc1101_init s = Exit (DeviceIdentityMismatch idb) s'
               \<and> last (syslog s') = Err_unexpected_id idb
               \<and> sent s' = sent s @ take 6 spec_init_frames
               \<and> script s' = r7 # rest
               \<and> (\<forall>v. [Some LDC1101_START_CONFIG, Some v] \<notin> set (drop (length (sent s)) (sent s')))))
       \<and> (idb = 0xD4 \<longrightarrow>
            (\<exists>s'. (ldc1101_init s = Return 0 s' \<or> ldc1101_init s = Exit (TransportError LDC1101_START_CONFIG) s')
               \<and> sent s' = sent s @ take 6 spec_init_frames @ [[Some LDC1101_START_CONFIG, Some 0]]
               \<and> script s' = rest))"
proof (intro conjI impI)
  assume "idb \<noteq> 0xD4"
  then show "\<exists>s'. ldc1101_init s = Exit (DeviceIdentityMismatch idb) s'
               \<and> last (syslog s') = Err_unexpected_id idb
               \<and> sent s' = sent s @ take 6 spec_init_frames
               \<and> script s' = r7 # rest
               \<and> (\<forall>v. [Some LDC1101_START_CONFIG, Some v] \<notin> set (drop (length (sent s)) (sent s')))"
    by (simp add: init_upto_identity [OF assms] SPI_DEV_ID_def Let_def)
      (simp add: spec_init_frames_def LDC1101_START_CONFIG_def)
next
  assume "idb = 0xD4"
  then show "\<exists>s'. (ldc1101_init s = Return 0 s' \<or> ldc1101_init s = Exit (TransportError LDC1101_START_CONFIG) s')
               \<and> sent s' = sent s @ take 6 spec_init_frames @ [[Some LDC1101_START_CONFIG, Some 0]]
               \<and> script s' = rest"
    by (cases r7) (simp_all add: init_upto_identity [OF assms] SPI_DEV_ID_def Let_def set_reg_unfold)
qed

theorem identity_check_gates_start_witness:
  "(\<exists>s'. ldc1101_init (fresh [Resp [0, 0], Resp [0, 0], Resp [0, 0], Resp [0, 0], Resp [0, 0],
                               Resp [0, 0x12, 0], Resp [0, 0]])
            = Exit (DeviceIdentityMismatch 0x12) s'
          \<and> sent s' = take 6 spec_init_frames \<and> script s' = [Resp [0, 0]])
   \<and> (\<exists>s'. ldc1101_init (fresh [Resp [0, 0], Resp [0, 0], Resp [0, 0], Resp [0, 0], Resp [0, 0],
                               Resp [0, 0xD4, 0], Resp [0, 0]])
            = Return 0 s'
          \<and> sent s' = take 6 spec_init_frames @ [[Some LDC1101_START_CONFIG, Some 0]] \<and> script s' = [])"
proof -
  have bad: "\<exists>s'. ldc1101_init (fresh [Resp [0, 0], Resp [0, 0], Resp [0, 0], Resp [0, 0], Resp [0, 0],
                               Resp [0, 0x12, 0], Resp [0, 0]])
            = Exit (DeviceIdentityMismatch 0x12) s'
          \<and> sent s' = take 6 spec_init_frames \<and> script s' = [Resp [0, 0]]"
    using identity_check_gates_start [of "fresh [Resp [0, 0], Resp [0, 0], Resp [0, 0], Resp [0, 0],
        Resp [0, 0], Resp [0, 0x12, 0], Resp [0, 0]]" "[0, 0]" "[0, 0]" "[0, 0]" "[0, 0]" "[0, 0]"
        0 "0x12" "[0]" "Resp [0, 0]" "[]"]
    by (simp add: fresh_def) blast
  have good: "\<exists>s'. ldc1101_init (fresh [Resp [0, 0], Resp [0, 0], Resp [0, 0], Resp [0, 0], Resp [0, 0],
                               Resp [0, 0xD4, 0], Resp [0, 0]])
            = Return 0 s'
          \<and> sent s' = take 6 spec_init_frames @ [[Some LDC1101_START_CONFIG, Some 0]] \<and> script s' = []"
    using identity_check_gates_start [of "fresh [Resp [0, 0], Resp [0, 0], Resp [0, 0], Resp [0, 0],
        Resp [0, 0], Resp [0, 0xD4, 0], Resp [0, 0]]" "[0, 0]" "[0, 0]" "[0, 0]" "[0, 0]" "[0, 0]"
        0 "0xD4" "[0]" "Resp [0, 0]" "[]"]
    by (auto simp add: fresh_def set_reg_unfold init_upto_identity SPI_DEV_ID_def)
  from bad good show ?thesis by blast
qed

subsection \<open>C7: the address byte of a frame\<close>

lemma hd_frame_of: "hd (frame_of (b # bs) (Suc k)) = Some b"
  by simp

text \<open>
  C7.  For a register address \<open>a\<close> of at most \<open>0x7F\<close> and any value \<open>v\<close>, the
  frame \<open>ldc1101_set_reg\<close> hands to the transport is the two bytes
  \<open>[a & 0x7F, v]\<close>.  For every \<open>length\<close>, a frame that \<open>ldc1101_read_reg\<close> hands
  to the transport and that has a first byte has \<open>a | 0x80\<close> as its first byte;
  when \<open>length + 1\<close> is a value of \<open>int\<close>, the read hands over exactly one frame,
  of \<open>length + 1\<close> bytes, and its first byte is \<open>a | 0x80\<close>.
\<close>

theorem frames_encode_address:
  assumes "a \<le> 0x7F" and "script s = r # rest" and "data \<noteq> []"
  shows "(\<exists>s'. (ldc1101_set_reg s a v = Return 0 s' \<or> ldc1101_set_reg s a v = Exit (TransportError a) s')
            \<and> sent s' = sent s @ [[Some (a AND 0x7F), Some v]])
       \<and> (\<exists>ret d s'. ldc1101_read_reg s a data n = Some (ret, d, s')
            \<and> (sent s' = sent s
                \<or> (\<exists>fr. sent s' = sent s @ [fr] \<and> (fr = [] \<or> hd fr = Some (a OR 0x80)))))
       \<and> (n + 1 \<le> 2147483647 \<longrightarrow>
            (\<exists>ret d s' fr. ldc1101_read_reg s a data n = Some (ret, d, s')
               \<and> sent s' = sent s @ [fr] \<and> length fr = n + 1 \<and> hd fr = Some (a OR 0x80)))"
proof (intro conjI impI)
  show "\<exists>s'. (ldc1101_set_reg s a v = Return 0 s' \<or> ldc1101_set_reg s a v = Exit (TransportError a) s')
            \<and> sent s' = sent s @ [[Some (a AND 0x7F), Some v]]"
    using assms(2) by (cases r) (simp_all add: set_reg_unfold and_7F_id [OF assms(1)])
next
  obtain b bs where d: "data = b # bs"
    using assms(3) by (cases data) auto
  show "\<exists>ret d s'. ldc1101_read_reg s a data n = Some (ret, d, s')
            \<and> (sent s' = sent s
                \<or> (\<exists>fr. sent s' = sent s @ [fr] \<and> (fr = [] \<or> hd fr = Some (a OR 0x80))))"
  proof (cases "size_t_to_int (n + 1) < 0")
    case True
    then show ?thesis
      by (simp add: ldc1101_read_reg_def transfer_refused)
  next
    case False
    show ?thesis
    proof (cases "nat (size_t_to_int (n + 1))")
      case 0
      with False assms(2) show ?thesis
        by (cases r) (simp_all add: ldc1101_read_reg_def wiringPiSPIxDataRW_def)
    next
      case (Suc j)
      with False assms(2) show ?thesis
        by (cases r) (simp_all add: ldc1101_read_reg_def wiringPiSPIxDataRW_def d read_address_or)
    qed
  qed
next
  assume "n + 1 \<le> 2147483647"
  then have n: "n < 2147483647" by simp
  obtain b bs where d: "data = b # bs"
    using assms(3) by (cases data) auto
  show "\<exists>ret d s' fr. ldc1101_read_reg s a data n = Some (ret, d, s')
               \<and> sent s' = sent s @ [fr] \<and> length fr = n + 1 \<and> hd fr = Some (a OR 0x80)"
    using assms(2) by (cases r) (simp_all add: read_reg_unfold [OF n] d read_address_or)
qed

theorem frames_encode_address_witness:
  "(0x3B :: u8) \<le> 0x7F
   \<and> (\<exists>s'. ldc1101_set_reg (fresh [Resp [0, 0]]) 0x3B 0x55 = Return 0 s' \<and> sent s' = [[Some 0x3B, Some 0x55]])
   \<and> (2 :: nat) + 1 \<le> 2147483647
   \<and> (\<exists>ret d s' fr. ldc1101_read_reg (fresh [Resp [0, 0]]) 0x3B [0x3B, 0] 2 = Some (ret, d, s')
            \<and> sent s' = [fr] \<and> length fr = 2 + 1 \<and> hd fr = Some 0xBB)"
  using frames_encode_address [of "0x3B" "fresh [Resp [0, 0]]" "Resp [0, 0]" "[]" "[0x3B, 0]" "0x55" 2]
  by (simp add: fresh_def set_reg_unfold)

subsection \<open>C2: the read transfers one byte more than the array holds\<close>






subsection \<open>C8: transport errors\<close>

text \<open>
  C8.  A failed transfer in \<open>ldc1101_set_reg\<close> ends the process at once: the
  frame was sent once and only that one reply was consumed, so nothing is tried
  again.  In \<open>ldc1101_init\<close> this holds for whichever of the five configuration
  writes fails first, and for the START_CONFIG write.  In the sampling loop a
  failed data read is logged, no row is written, the pass returns and the loop
  goes on with the remaining passes.
\<close>

theorem transport_error_fatal_in_config_recoverable_in_sampling:
  "(script s = Fail # rest \<longrightarrow>
      (\<exists>s'. ldc1101_set_reg s reg v = Exit (TransportError reg) s'
         \<and> sent s' = sent s @ [[Some reg, Some v]] \<and> script s' = rest))
   \<and> (setup_fd s \<noteq> - 1 \<and> script s = map Resp pre @ Fail # rest \<and> length pre < 5 \<longrightarrow>
        (\<exists>s'. ldc1101_init s =
             Exit (TransportError ([LDC1101_ALT_CONFIG, LDC1101_D_CONF, LDC1101_LHR_RCOUNT_MSB,
                                    LDC1101_LHR_RCOUNT_LSB, LDC1101_RP_SET] ! length pre)) s'
           \<and> sent s' = sent s @ take (length pre + 1) spec_init_frames \<and> script s' = rest))
   \<and> (setup_fd s \<noteq> - 1
        \<and> script s = Resp a1 # Resp a2 # Resp a3 # Resp a4 # Resp a5 # Resp (r0 # 0xD4 # rs) # Fail # rest \<longrightarrow>
        (\<exists>s'. ldc1101_init s = Exit (TransportError LDC1101_START_CONFIG) s'
           \<and> sent s' = sent s @ spec_init_frames \<and> script s' = rest))
   \<and> (busy_poll s = Some s1 \<and> script s1 = Fail # rest \<longrightarrow>
        (\<exists>s2. sample_once s = Return () s2
           \<and> syslog s2 = syslog s1 @ [Err_read_reg LDC1101_LHR_DATA_LSB, Err_read_value]
           \<and> rows s2 = rows s1 \<and> script s2 = rest
           \<and> sample_loop (Suc n) s = sample_loop n s2))"
proof (intro conjI impI)
  assume "script s = Fail # rest"
  then show "\<exists>s'. ldc1101_set_reg s reg v = Exit (TransportError reg) s'
         \<and> sent s' = sent s @ [[Some reg, Some v]] \<and> script s' = rest"
    by (simp add: set_reg_unfold)
next
  assume a: "setup_fd s \<noteq> - 1 \<and> script s = map Resp pre @ Fail # rest \<and> length pre < 5"
  then consider "pre = []" | b1 where "pre = [b1]" | b1 b2 where "pre = [b1, b2]"
    | b1 b2 b3 where "pre = [b1, b2, b3]" | b1 b2 b3 b4 where "pre = [b1, b2, b3, b4]"
    by (cases pre rule: list.exhaust; simp; cases "tl pre"; simp; cases "tl (tl pre)"; simp;
        cases "tl (tl (tl pre))"; simp; cases "tl (tl (tl (tl pre)))"; simp)
  then show "\<exists>s'. ldc1101_init s =
             Exit (TransportError ([LDC1101_ALT_CONFIG, LDC1101_D_CONF, LDC1101_LHR_RCOUNT_MSB,
                                    LDC1101_LHR_RCOUNT_LSB, LDC1101_RP_SET] ! length pre)) s'
           \<and> sent s' = sent s @ take (length pre + 1) spec_init_frames \<and> script s' = rest"
    using a
    by cases
      (simp_all add: ldc1101_init_def Let_def set_reg_unfold init_constants spec_init_frames_def reg_defs)
next
  assume a: "setup_fd s \<noteq> - 1
        \<and> script s = Resp a1 # Resp a2 # Resp a3 # Resp a4 # Resp a5 # Resp (r0 # 0xD4 # rs) # Fail # rest"
  then show "\<exists>s'. ldc1101_init s = Exit (TransportError LDC1101_START_CONFIG) s'
           \<and> sent s' = sent s @ spec_init_frames \<and> script s' = rest"
    by (simp add: init_upto_identity [where rest = "Fail # rest"] SPI_DEV_ID_def Let_def set_reg_unfold)
      (simp add: spec_init_frames_def LDC1101_START_CONFIG_def)
next
  assume a: "busy_poll s = Some s1 \<and> script s1 = Fail # rest"
  then show "\<exists>s2. sample_once s = Return () s2
           \<and> syslog s2 = syslog s1 @ [Err_read_reg LDC1101_LHR_DATA_LSB, Err_read_value]
           \<and> rows s2 = rows s1 \<and> script s2 = rest
           \<and> sample_loop (Suc n) s = sample_loop n s2"
    by (simp add: sample_once_unfold)
qed


lemma run_poll_before_failed_read:
  "busy_poll (fresh [Resp [0, 0, 0], Fail, Resp [0, 0, 0], Resp [0, 1, 2, 3, 0]])
     = Some \<lparr>sent = [[Some 0xBB, Some 0, None]],
         script = [Fail, Resp [0, 0, 0], Resp [0, 1, 2, 3, 0]],
         setup_fd = 3, syslog = [], rows = [], write_ok = (\<lambda>k. True)\<rparr>"
  by (simp add: busy_poll_unfold fresh_def numeral_3_eq_3)

theorem transport_error_fatal_in_config_recoverable_in_sampling_witness:
  "(\<exists>s'. ldc1101_set_reg (fresh [Fail, Resp [0, 0]]) LDC1101_ALT_CONFIG LOPTIMAL
            = Exit (TransportError LDC1101_ALT_CONFIG) s'
         \<and> sent s' = [[Some LDC1101_ALT_CONFIG, Some LOPTIMAL]] \<and> script s' = [Resp [0, 0]])
   \<and> (\<exists>s'. ldc1101_init (fresh [Resp [0, 0], Resp [0, 0], Fail, Resp [0, 0]])
            = Exit (TransportError LDC1101_LHR_RCOUNT_MSB) s'
         \<and> sent s' = take 3 spec_init_frames \<and> script s' = [Resp [0, 0]])
   \<and> (\<exists>s'. ldc1101_init (fresh [Resp [0, 0], Resp [0, 0], Resp [0, 0], Resp [0, 0], Resp [0, 0],
                               Resp [0, 0xD4, 0], Fail, Resp [0, 0]])
            = Exit (TransportError LDC1101_START_CONFIG) s'
         \<and> sent s' = spec_init_frames \<and> script s' = [Resp [0, 0]])
   \<and> (\<exists>s2. sample_once (fresh [Resp [0, 0, 0], Fail, Resp [0, 0, 0], Resp [0, 1, 2, 3, 0]]) = Return () s2
         \<and> syslog s2 = [Err_read_reg LDC1101_LHR_DATA_LSB, Err_read_value]
         \<and> rows s2 = [] \<and> script s2 = [Resp [0, 0, 0], Resp [0, 1, 2, 3, 0]]
         \<and> sample_loop (Suc 1) (fresh [Resp [0, 0, 0], Fail, Resp [0, 0, 0], Resp [0, 1, 2, 3, 0]])
             = sample_loop 1 s2
         \<and> (\<exists>s3. sample_loop 1 s2 = Return () s3 \<and> rows s3 = [0x030201]))"
proof (intro conjI)
  show "\<exists>s'. ldc1101_set_reg (fresh [Fail, Resp [0, 0]]) LDC1101_ALT_CONFIG LOPTIMAL
            = Exit (TransportError LDC1101_ALT_CONFIG) s'
         \<and> sent s' = [[Some LDC1101_ALT_CONFIG, Some LOPTIMAL]] \<and> script s' = [Resp [0, 0]]"
    using transport_error_fatal_in_config_recoverable_in_sampling [THEN conjunct1, rule_format,
        of "fresh [Fail, Resp [0, 0]]" "[Resp [0, 0]]" LDC1101_ALT_CONFIG LOPTIMAL]
    by (simp add: fresh_def)
  show "\<exists>s'. ldc1101_init (fresh [Resp [0, 0], Resp [0, 0], Fail, Resp [0, 0]])
            = Exit (TransportError LDC1101_LHR_RCOUNT_MSB) s'
         \<and> sent s' = take 3 spec_init_frames \<and> script s' = [Resp [0, 0]]"
    using transport_error_fatal_in_config_recoverable_in_sampling [THEN conjunct2, THEN conjunct1,
        rule_format, of "fresh [Resp [0, 0], Resp [0, 0], Fail, Resp [0, 0]]" "[[0, 0], [0, 0]]"
        "[Resp [0, 0]]"]
    by (simp add: fresh_def numeral_3_eq_3)
  show "\<exists>s'. ldc1101_init (fresh [Resp [0, 0], Resp [0, 0], Resp [0, 0], Resp [0, 0], Resp [0, 0],
                               Resp [0, 0xD4, 0], Fail, Resp [0, 0]])
            = Exit (TransportError LDC1101_START_CONFIG) s'
         \<and> sent s' = spec_init_frames \<and> script s' = [Resp [0, 0]]"
    using transport_error_fatal_in_config_recoverable_in_sampling [THEN conjunct2, THEN conjunct2,
        THEN conjunct1, rule_format,
        of "fresh [Resp [0, 0], Resp [0, 0], Resp [0, 0], Resp [0, 0], Resp [0, 0],
                   Resp [0, 0xD4, 0], Fail, Resp [0, 0]]"
          "[0, 0]" "[0, 0]" "[0, 0]" "[0, 0]" "[0, 0]" 0 "[0]" "[Resp [0, 0]]"]
    by (simp add: fresh_def)
  show "\<exists>s2. sample_once (fresh [Resp [0, 0, 0], Fail, Resp [0, 0, 0], Resp [0, 1, 2, 3, 0]]) = Return () s2
         \<and> syslog s2 = [Err_read_reg LDC1101_LHR_DATA_LSB, Err_read_value]
         \<and> rows s2 = [] \<and> script s2 = [Resp [0, 0, 0], Resp [0, 1, 2, 3, 0]]
         \<and> sample_loop (Suc 1) (fresh [Resp [0, 0, 0], Fail, Resp [0, 0, 0], Resp [0, 1, 2, 3, 0]])
             = sample_loop 1 s2
         \<and> (\<exists>s3. sample_loop 1 s2 = Return () s3 \<and> rows s3 = [0x030201])"
  proof -
    from transport_error_fatal_in_config_recoverable_in_sampling [THEN conjunct2, THEN conjunct2,
        THEN conjunct2, rule_format, OF conjI, OF run_poll_before_failed_read, of _ 1]
    obtain s2 where
      once: "sample_once (fresh [Resp [0, 0, 0], Fail, Resp [0, 0, 0], Resp [0, 1, 2, 3, 0]]) = Return () s2"
      and facts: "syslog s2 = [Err_read_reg LDC1101_LHR_DATA_LSB, Err_read_value]"
        "rows s2 = []" "script s2 = [Resp [0, 0, 0], Resp [0, 1, 2, 3, 0]]"
        "sample_loop (Suc 1) (fresh [Resp [0, 0, 0], Fail, Resp [0, 0, 0], Resp [0, 1, 2, 3, 0]])
           = sample_loop 1 s2"
      by auto
    have "write_ok s2 = (\<lambda>k. True)"
      using once by (simp add: sample_once_unfold run_poll_before_failed_read) (auto simp add: log_def)
    then have "\<exists>s3. sample_loop 1 s2 = Return () s3 \<and> rows s3 = [0x030201]"
      using facts(2,3)
      by (simp add: sample_once_unfold busy_poll_unfold [of s2] decode_sample_def)
    with once facts show ?thesis by blast
  qed
qed

subsection \<open>C1: what ends the busy-poll\<close>

text \<open>
  The reply that ends the busy-poll is either a status byte with bit 0 clear or a
  failed transfer; every reply before it was a status byte with bit 0 set.
\<close>

lemma busy_poll_last_reply:
  assumes "busy_poll s = Some s'"
  shows "\<exists>pre r. script s = pre @ r # script s'
           \<and> (r = Fail \<or> (\<exists>rx. r = Resp rx \<and> \<not> bit (overlay (take 3 rx) [0xBB, 0] ! 1) 0))
           \<and> (\<forall>p \<in> set pre. \<exists>rx. p = Resp rx \<and> bit (overlay (take 3 rx) [0xBB, 0] ! 1) 0)"
  using assms
proof (induction s rule: busy_poll.induct)
  case (1 s)
  show ?case
  proof (cases "script s")
    case Nil
    with "1.prems" show ?thesis by (simp add: busy_poll_unfold)
  next
    case (Cons r rest)
    show ?thesis
    proof (cases r)
      case Fail
      with Cons "1.prems" have "script s = [] @ Fail # script s'"
        by (auto simp add: busy_poll_unfold)
      then show ?thesis by fastforce
    next
      case (Resp rx)
      show ?thesis
      proof (cases "bit (overlay (take 3 rx) [0xBB, 0] ! 1) 0")
        case False
        with Resp Cons "1.prems" have "script s = [] @ Resp rx # script s'"
          by (auto simp add: busy_poll_unfold)
        with False show ?thesis by fastforce
      next
        case True
        have rd: "ldc1101_read_reg s LDC1101_LHR_STATUS [LDC1101_LHR_STATUS, 0] 2
            = Some (0, overlay (take 3 rx) [0xBB, 0],
                s\<lparr>sent := sent s @ [[Some 0xBB, Some 0, None]], script := rest\<rparr>)"
          by (simp add: read_reg_unfold Cons Resp read_address_or LDC1101_LHR_STATUS_def)
        have "busy_poll (s\<lparr>sent := sent s @ [[Some 0xBB, Some 0, None]], script := rest\<rparr>) = Some s'"
          using "1.prems" True Cons Resp by (simp add: busy_poll_unfold [of s])
        with "1.IH" [OF rd refl refl] True obtain pre r' where
          p: "rest = pre @ r' # script s'"
          "r' = Fail \<or> (\<exists>rx. r' = Resp rx \<and> \<not> bit (overlay (take 3 rx) [0xBB, 0] ! 1) 0)"
          "\<forall>p \<in> set pre. \<exists>rx. p = Resp rx \<and> bit (overlay (take 3 rx) [0xBB, 0] ! 1) 0"
          by (auto simp add: drdy_iff)
        have "script s = (Resp rx # pre) @ r' # script s'"
          using Cons Resp p(1) by simp
        moreover have "\<forall>p \<in> set (Resp rx # pre). \<exists>rx. p = Resp rx \<and> bit (overlay (take 3 rx) [0xBB, 0] ! 1) 0"
          using True p(3) by simp
        ultimately show ?thesis using p(2) by blast
      qed
    qed
  qed
qed

text \<open>
  C1.  The claim asks that a sample is decoded only after a status read in which
  bit 0 was clear.  Here the only status transfer fails, so no status byte is ever
  received; the loop still ends after that one pass, because the return value of
  the read is not examined and the array still holds the 0 it was initialised
  with, and the value 65536 is decoded from the data read and written as a row.
\<close>

theorem failed_status_read_taken_as_ready:
  "sample_once (fresh [Fail, Resp [0, 0, 0, 1, 0]])
     = Return () \<lparr>sent = [[Some 0xBB, Some 0, None], [Some 0xB8, Some 0, Some 0, Some 0, None]],
         script = [], setup_fd = 3, syslog = [Err_read_reg LDC1101_LHR_STATUS],
         rows = [65536], write_ok = (\<lambda>k. True)\<rparr>"
  by (simp add: sample_once_unfold busy_poll_unfold fresh_def decode_sample_def log_def)

subsection \<open>C5: the data read\<close>

text \<open>
  C5.  The claim asks for a read of exactly three data bytes.  After a status
  byte with bit 0 clear, the single data transfer starts at LHR_DATA_LSB and is
  five bytes long: the address byte and four data bytes, the last of them beyond
  the end of the four-byte array.  The sample is decoded from the first three
  data bytes.
\<close>

theorem data_read_clocks_four_data_bytes:
  "sample_once (fresh [Resp [0, 0, 0], Resp [0, 1, 2, 3, 4]])
     = Return () \<lparr>sent = [[Some 0xBB, Some 0, None], [Some 0xB8, Some 0, Some 0, Some 0, None]],
         script = [], setup_fd = 3, syslog = [],
         rows = [0x030201], write_ok = (\<lambda>k. True)\<rparr>"
  by (simp add: sample_once_unfold busy_poll_unfold fresh_def decode_sample_def)

subsection \<open>C10: elapsed time\<close>

text \<open>
  C10 as stated ranges over all pairs of \<open>timespec\<close> values with \<open>end \<ge> start\<close>
  and nanosecond fields in \<open>[0, 10^9)\<close>.  With a 64-bit \<open>time_t\<close>, the start
  \<open>(-2^63, 0)\<close> and the end \<open>(0, 0)\<close> are such a pair, and the subtraction
  \<open>end.tv_sec - start.tv_sec\<close> overflows: the exact difference of \<open>2^63\<close> seconds
  is not a value of the result type.
\<close>

theorem elapsed_time_overflow_counterexample:
  "fits 64 (tv_sec \<lparr>tv_sec = - (2 ^ 63), tv_nsec = 0\<rparr>)
   \<and> fits 64 (tv_sec \<lparr>tv_sec = 0, tv_nsec = 0\<rparr>)
   \<and> nanos \<lparr>tv_sec = - (2 ^ 63), tv_nsec = 0\<rparr> \<le> nanos \<lparr>tv_sec = 0, tv_nsec = 0\<rparr>
   \<and> get_elapsed_time 64 64 \<lparr>tv_sec = - (2 ^ 63), tv_nsec = 0\<rparr> \<lparr>tv_sec = 0, tv_nsec = 0\<rparr> = None"
  by (simp add: get_elapsed_time_def checked_def fits_def nanos_def)

lemma fits_32_le: "32 \<le> w \<Longrightarrow> - 2147483648 \<le> x \<Longrightarrow> x < 2147483648 \<Longrightarrow> fits w x"
proof -
  assume w: "32 \<le> w" and x: "- 2147483648 \<le> x" "x < 2147483648"
  have "(2 :: int) ^ 31 \<le> 2 ^ (w - 1)"
    using w by (intro power_increasing) auto
  then show ?thesis using x by (simp add: fits_def)
qed

lemma fits_difference_of_later:
  "fits w b \<Longrightarrow> 0 \<le> a \<Longrightarrow> a \<le> b \<Longrightarrow> fits w (b - a)"
proof -
  assume b: "fits w b" and a: "0 \<le> a" "a \<le> b"
  have "(0 :: int) \<le> 2 ^ (w - 1)" by simp
  then show ?thesis using a b unfolding fits_def by linarith
qed

text \<open>
  C10, amended.  Let \<open>long\<close> have at least 32 bits, let both nanosecond fields
  lie in \<open>[0, 10^9)\<close>, let \<open>end \<ge> start\<close>, and let the difference of the seconds
  fields fit \<open>time_t\<close> (by \<open>fits_difference_of_later\<close> it does whenever
  \<open>0 \<le> start.tv_sec \<le> end.tv_sec\<close>).  Then
  \<open>get_elapsed_time\<close> returns a \<open>timespec\<close> whose nanosecond field lies in
  \<open>[0, 10^9)\<close> and which is the exact difference \<open>end - start\<close>.
\<close>

theorem elapsed_time_exact:
  assumes "32 \<le> long_bits"
    and "0 \<le> tv_nsec start" "tv_nsec start < 1000000000"
    and "0 \<le> tv_nsec end'" "tv_nsec end' < 1000000000"
    and "nanos start \<le> nanos end'"
    and "fits time_bits (tv_sec end' - tv_sec start)"
  shows "\<exists>r. get_elapsed_time time_bits long_bits start end' = Some r
           \<and> 0 \<le> tv_nsec r \<and> tv_nsec r < 1000000000
           \<and> nanos r = nanos end' - nanos start"
proof (cases "tv_nsec end' - tv_nsec start < 0")
  case True
  have le: "tv_sec start < tv_sec end'"
    using assms(2-6) True by (simp add: nanos_def)
  then have f1: "fits time_bits (tv_sec end' - tv_sec start - 1)"
    using assms(7) by (simp add: fits_def)
  have f2: "fits long_bits (tv_nsec end' - tv_nsec start)"
    "fits long_bits (1000000000 + tv_nsec end')"
    "fits long_bits (1000000000 + tv_nsec end' - tv_nsec start)"
    using assms(2-5) by (auto intro!: fits_32_le [OF assms(1)])
  show ?thesis
    using True assms(2-5) assms(7) f1 f2
    by (simp add: get_elapsed_time_def checked_def nanos_def)
next
  case False
  have f2: "fits long_bits (tv_nsec end' - tv_nsec start)"
    using assms(2-5) by (auto intro!: fits_32_le [OF assms(1)])
  show ?thesis
    using False assms(2-5) assms(7) f2
    by (simp add: get_elapsed_time_def checked_def nanos_def)
qed

theorem elapsed_time_exact_witness:
  "(32 :: nat) \<le> 64
   \<and> nanos \<lparr>tv_sec = 5, tv_nsec = 900000000\<rparr> \<le> nanos \<lparr>tv_sec = 7, tv_nsec = 100000000\<rparr>
   \<and> fits 64 (7 - 5)
   \<and> (\<exists>r. get_elapsed_time 64 64 \<lparr>tv_sec = 5, tv_nsec = 900000000\<rparr> \<lparr>tv_sec = 7, tv_nsec = 100000000\<rparr> = Some r
         \<and> 0 \<le> tv_nsec r \<and> tv_nsec r < 1000000000
         \<and> nanos r = 1200000000)"
  using elapsed_time_exact [of 64 "\<lparr>tv_sec = 5, tv_nsec = 900000000\<rparr>"
      "\<lparr>tv_sec = 7, tv_nsec = 100000000\<rparr>" 64]
  by (simp add: nanos_def fits_def)

end
